theory Spec2Isabelle
  imports Main
begin

section \<open>Values, objects and the outside world\<close>

text \<open>
  The server of \<^verbatim>\<open>server.js\<close> answers five routes. Each route callback looks a
  location up in a PostgreSQL table, and either sends the rows it found or asks an
  external provider, saves what the provider returned and sends that.

  A JavaScript value that the code only copies around is a \<open>jsval\<close>; fractional
  numbers (ratings, popularity) are carried as their decimal text, since the code never
  computes with them. An object is the list of its own properties in creation order,
  which is the order \<^verbatim>\<open>Object.values\<close> follows.
\<close>

datatype jsval = Undefined | Num int | Str string

type_synonym obj = "(string \<times> jsval) list"

definition js_get :: "obj \<Rightarrow> string \<Rightarrow> jsval" where
  "js_get ob k = (case map_of ob k of None \<Rightarrow> Undefined | Some v \<Rightarrow> v)"

definition Object_values :: "obj \<Rightarrow> jsval list" where
  "Object_values ob = map snd ob"

definition Object_keys :: "obj \<Rightarrow> string list" where
  "Object_keys ob = map fst ob"

text \<open>
  What a promise can be rejected with: a failed HTTP call, a \<^verbatim>\<open>TypeError\<close> of a
  property read on \<^verbatim>\<open>undefined\<close>, the string \<^verbatim>\<open>'No data'\<close> thrown by
  \<^verbatim>\<open>Location.fetchLocation\<close>, and a failed database query.
\<close>

datatype error = HttpError | TypeError | NoData | DbError

text \<open>The parsed bodies of the five providers, each item with the properties the code reads.\<close>

record geo =
  geo_formatted_address :: string
  geo_lat :: string
  geo_lng :: string

record day =
  day_summary :: jsval
  day_time :: int

record event =
  event_url :: jsval
  event_name_text :: jsval
  event_start_local :: string
  event_summary :: jsval

record movie =
  movie_title :: jsval
  movie_release_date :: jsval
  movie_vote_count :: jsval
  movie_vote_average :: jsval
  movie_popularity :: jsval
  movie_overview :: jsval
  movie_poster_path :: string

record business =
  business_name :: jsval
  business_rating :: jsval
  business_price :: jsval
  business_url :: jsval
  business_image_url :: jsval

datatype body =
    GeoBody "geo list"
  | DarkSkyBody "day list"
  | EventbriteBody "event list"
  | TmdbBody "movie list"
  | YelpBody "business list"

text \<open>
  The three shapes of SQL statement the code sends through \<^verbatim>\<open>client.query\<close>:
  \<^verbatim>\<open>SELECT * FROM t WHERE c=$1\<close>, \<^verbatim>\<open>DELETE FROM t WHERE location_id=i\<close> and
  \<^verbatim>\<open>INSERT INTO t (cols) VALUES (...) RETURNING id\<close>.
\<close>

datatype statement =
    Select string string jsval
  | Delete string int
  | Insert string "string list" "jsval list"

record result =
  rowCount :: nat
  rows :: "obj list"

text \<open>
  Modelled from the spec: the database schema and the database itself are not among the
  sources. Following the data model of the specification, a table is a list of rows; a
  row carries the store-assigned \<open>id\<close>, then the columns an \<^verbatim>\<open>INSERT\<close> of the
  source names. Each table hands out its ids from a counter.
\<close>

record store =
  tables :: "string \<Rightarrow> obj list"
  serial :: "string \<Rightarrow> int"

text \<open>
  Everything the code reads from outside: the clock (one request reads it as a single
  instant), the API keys of \<^verbatim>\<open>process.env\<close>, the answer of each HTTP request (by
  URL and \<^verbatim>\<open>Authorization\<close> header), which statements the database rejects, and
  the JavaScript built-ins for dates and for the number a string converts to (\<open>None\<close>
  is \<^verbatim>\<open>NaN\<close>).
\<close>

record env =
  now :: int
  GEOCODE_API_KEY :: string
  WEATHER_API_KEY :: string
  EVENTBRITE_API_KEY :: string
  MOVIE_API_KEY :: string
  YELP_API_KEY :: string
  http :: "string \<Rightarrow> string option \<Rightarrow> error + body"
  query_fails :: "statement \<Rightarrow> bool"
  toDateString :: "int option \<Rightarrow> string"
  Date_parse :: "string \<Rightarrow> int option"
  StringToNumber :: "string \<Rightarrow> int option"

text \<open>What a route callback hands to \<^verbatim>\<open>response.send\<close>, and what the console shows.\<close>

datatype payload = Records "obj list" | Record obj | Nothing

datatype entry = Msg string | ErrorObj int string | Err error

text \<open>
  The state a request runs in and leaves behind: the database, the HTTP requests issued
  so far, the console, and the responses sent.
\<close>

record world =
  db :: store
  requests :: "(string \<times> string option) list"
  console :: "entry list"
  sent :: "payload list"

definition console_log :: "entry \<Rightarrow> world \<Rightarrow> world" where
  "console_log x w = w\<lparr>console := console w @ [x]\<rparr>"

definition response_send :: "payload \<Rightarrow> world \<Rightarrow> world" where
  "response_send p w = w\<lparr>sent := sent w @ [p]\<rparr>"

definition superagent_get ::
  "env \<Rightarrow> string \<Rightarrow> string option \<Rightarrow> world \<Rightarrow> (error + body) \<times> world" where
  "superagent_get e url auth w = (http e url auth, w\<lparr>requests := requests w @ [(url, auth)]\<rparr>)"

text \<open>
  \<^verbatim>\<open>client.query\<close>. A rejected statement changes nothing. A \<^verbatim>\<open>SELECT\<close> returns
  the rows whose column equals the parameter (no row equals a missing parameter); a
  \<^verbatim>\<open>DELETE\<close> keeps the rows of the table with another \<open>location_id\<close>; an
  \<^verbatim>\<open>INSERT\<close> binds the values to the named columns by position, fails when their
  numbers differ, and returns the new id.
\<close>

definition store_query :: "env \<Rightarrow> statement \<Rightarrow> store \<Rightarrow> (error + result) \<times> store" where
  "store_query e q s =
     (if query_fails e q then (Inl DbError, s)
      else case q of
        Select t c v \<Rightarrow>
          (let found = filter (\<lambda>r. v \<noteq> Undefined \<and> js_get r c = v) (tables s t)
           in (Inr \<lparr>rowCount = length found, rows = found\<rparr>, s))
      | Delete t i \<Rightarrow>
          (let gone = filter (\<lambda>r. js_get r ''location_id'' = Num i) (tables s t);
               kept = filter (\<lambda>r. js_get r ''location_id'' \<noteq> Num i) (tables s t)
           in (Inr \<lparr>rowCount = length gone, rows = []\<rparr>,
               s\<lparr>tables := (tables s)(t := kept)\<rparr>))
      | Insert t cols vals \<Rightarrow>
          (if length cols \<noteq> length vals then (Inl DbError, s)
           else
             (let new_id = (''id'', Num (serial s t))
              in (Inr \<lparr>rowCount = 1, rows = [[new_id]]\<rparr>,
                  s\<lparr>tables := (tables s)(t := tables s t @ [new_id # zip cols vals]),
                    serial := (serial s)(t := serial s t + 1)\<rparr>))))"

definition client_query :: "env \<Rightarrow> statement \<Rightarrow> world \<Rightarrow> (error + result) \<times> world" where
  "client_query e q w = (case store_query e q (db w) of (r, s) \<Rightarrow> (r, w\<lparr>db := s\<rparr>))"

section \<open>Error message and helper functions\<close>

text \<open>
  \<^verbatim>\<open>errorMessage\<close> builds the object \<^verbatim>\<open>{status: 500, responseText: ...}\<close>, logs it
  and returns it.
\<close>

definition errorMessage :: "world \<Rightarrow> entry \<times> world" where
  "errorMessage w =
     (let errorObj = ErrorObj 500 ''Sorry something went wrong''
      in (errorObj, console_log errorObj w))"

record location =
  loc_id :: int
  search_query :: string
  formatted_query :: string
  latitude :: string
  longitude :: string

text \<open>
  The handler object a route callback passes to \<^verbatim>\<open>lookup\<close>. \<open>cacheHit\<close> may throw
  (\<open>Inl\<close>) before it changes anything: it reads \<^verbatim>\<open>result.rows[0]\<close>.
\<close>

record handler =
  handler_location :: location
  handler_tableName :: string
  cacheHit :: "result \<Rightarrow> world \<Rightarrow> error + world"
  cacheMiss :: "world \<Rightarrow> world"

text \<open>
  \<^verbatim>\<open>lookup\<close> returns a promise. The model returns what the promise resolves to:
  \<open>None\<close> for \<^verbatim>\<open>undefined\<close>, or the error object that \<^verbatim>\<open>.catch(errorMessage)\<close>
  turns a rejection into. The promise is never rejected.
\<close>

definition lookup :: "env \<Rightarrow> handler \<Rightarrow> world \<Rightarrow> entry option \<times> world" where
  "lookup e h w =
     (case client_query e
             (Select (handler_tableName h) ''location_id'' (Num (loc_id (handler_location h)))) w of
        (Inl err, w1) \<Rightarrow> (case errorMessage w1 of (errorObj, w2) \<Rightarrow> (Some errorObj, w2))
      | (Inr result, w1) \<Rightarrow>
          if rowCount result > 0 then
            (case cacheHit h result w1 of
               Inl err \<Rightarrow> (case errorMessage w1 of (errorObj, w2) \<Rightarrow> (Some errorObj, w2))
             | Inr w2 \<Rightarrow> (None, w2))
          else (None, cacheMiss h w1))"

text \<open>
  A location id is an integer, so the text \<^verbatim>\<open>deleteByLocationId\<close> splices into its
  statement is that integer.
\<close>

definition deleteByLocationId ::
  "env \<Rightarrow> string \<Rightarrow> int \<Rightarrow> world \<Rightarrow> (error + result) \<times> world" where
  "deleteByLocationId e table location_id w = client_query e (Delete table location_id) w"

datatype kind = Weather | Events | Movies | Yelp

fun timeouts :: "kind \<Rightarrow> int" where
  "timeouts Weather = 15 * 1000"
| "timeouts Events = 60 * 60 * 1000"
| "timeouts Movies = 60 * 60 * 24 * 1000"
| "timeouts Yelp = 60 * 60 * 4 * 1000"

fun tableName :: "kind \<Rightarrow> string" where
  "tableName Weather = ''weathers''"
| "tableName Events = ''events''"
| "tableName Movies = ''movies''"
| "tableName Yelp = ''yelps''"

section \<open>Constructor functions\<close>

text \<open>Each constructor sets its properties in the order written in the source.\<close>

definition Location :: "string \<Rightarrow> geo \<Rightarrow> obj" where
  "Location query geoData =
     [(''search_query'', Str query),
      (''formatted_query'', Str (geo_formatted_address geoData)),
      (''latitude'', Str (geo_lat geoData)),
      (''longitude'', Str (geo_lng geoData))]"

definition new_Weather :: "env \<Rightarrow> day \<Rightarrow> obj" where
  "new_Weather e d =
     [(''forecast'', day_summary d),
      (''time'', Str (toDateString e (Some (day_time d * 1000)))),
      (''created_at'', Num (now e))]"

definition new_Events :: "env \<Rightarrow> event \<Rightarrow> obj" where
  "new_Events e data =
     (let time = Date_parse e (event_start_local data);
          newDate = toDateString e time
      in [(''link'', event_url data),
          (''name'', event_name_text data),
          (''event_date'', Str newDate),
          (''summary'', event_summary data),
          (''created_at'', Num (now e))])"

definition new_Movies :: "env \<Rightarrow> movie \<Rightarrow> obj" where
  "new_Movies e data =
     [(''title'', movie_title data),
      (''released_on'', movie_release_date data),
      (''total_votes'', movie_vote_count data),
      (''average_votes'', movie_vote_average data),
      (''popularity'', movie_popularity data),
      (''overview'', movie_overview data),
      (''image_url'', Str (''https://image.tmdb.org/t/p/original'' @ movie_poster_path data)),
      (''created_at'', Num (now e))]"

definition new_Yelp :: "env \<Rightarrow> business \<Rightarrow> obj" where
  "new_Yelp e data =
     [(''name'', business_name data),
      (''rating'', business_rating data),
      (''price'', business_price data),
      (''url'', business_url data),
      (''image_url'', business_image_url data),
      (''created_at'', Num (now e))]"

text \<open>
  \<^verbatim>\<open>Array.prototype.map\<close> with a callback that has effects: the callback runs on the
  items from left to right, each run starting in the state the previous one left.
\<close>

fun array_map :: "('a \<Rightarrow> 's \<Rightarrow> 'b \<times> 's) \<Rightarrow> 'a list \<Rightarrow> 's \<Rightarrow> 'b list \<times> 's" where
  "array_map f [] w = ([], w)"
| "array_map f (x # xs) w =
     (case f x w of (y, w1) \<Rightarrow>
        (case array_map f xs w1 of (ys, w2) \<Rightarrow> (y # ys, w2)))"

section \<open>Location\<close>

record location_handler =
  handler_query :: string
  locationHit :: "result \<Rightarrow> world \<Rightarrow> world"
  locationMiss :: "result \<Rightarrow> world \<Rightarrow> world"

text \<open>
  \<^verbatim>\<open>Location.lookup\<close>: as \<^verbatim>\<open>lookup\<close>, by search text, and a rejection is only
  printed by \<^verbatim>\<open>console.error\<close>.
\<close>

definition Location_lookup :: "env \<Rightarrow> location_handler \<Rightarrow> world \<Rightarrow> world" where
  "Location_lookup e h w =
     (case client_query e (Select ''locations'' ''search_query'' (Str (handler_query h))) w of
        (Inl err, w1) \<Rightarrow> console_log (Err err) w1
      | (Inr results, w1) \<Rightarrow>
          if rowCount results > 0 then locationHit h results w1
          else locationMiss h results w1)"

definition Location_save :: "env \<Rightarrow> obj \<Rightarrow> world \<Rightarrow> (error + result) \<times> world" where
  "Location_save e this w =
     client_query e
       (Insert ''locations'' [''search_query'', ''formatted_query'', ''latitude'', ''longitude'']
          (Object_values this)) w"

definition Location_url :: "env \<Rightarrow> string \<Rightarrow> string" where
  "Location_url e query =
     ''https://maps.googleapis.com/maps/api/geocode/json?address='' @ query @ ''&key='' @
       GEOCODE_API_KEY e"

text \<open>
  \<^verbatim>\<open>Location.fetchLocation\<close>: the promise is rejected (\<open>Inl\<close>) when the request
  fails, when the body has no \<^verbatim>\<open>results\<close> array of geocoding results, with
  \<^verbatim>\<open>'No data'\<close> when that array is empty, and when the insert fails.
\<close>

definition fetchLocation :: "env \<Rightarrow> string \<Rightarrow> world \<Rightarrow> (error + obj) \<times> world" where
  "fetchLocation e query w =
     (case superagent_get e (Location_url e query) None w of
        (Inl err, w1) \<Rightarrow> (Inl err, w1)
      | (Inr (GeoBody results), w1) \<Rightarrow>
          (case results of
             [] \<Rightarrow> (Inl NoData, w1)
           | first # _ \<Rightarrow>
               (let location = Location query first
                in case Location_save e location w1 of
                     (Inl err, w2) \<Rightarrow> (Inl err, w2)
                   | (Inr result, w2) \<Rightarrow>
                       (case rows result of
                          [] \<Rightarrow> (Inl TypeError, w2)
                        | r # _ \<Rightarrow> (Inr (location @ [(''id'', js_get r ''id'')]), w2))))
      | (Inr _, w1) \<Rightarrow> (Inl TypeError, w1))"

section \<open>Weather, Events, Movie, Yelp\<close>

text \<open>
  Each \<^verbatim>\<open>save\<close> inserts the values of the object, followed by the location id, under
  the columns its statement names. Each \<^verbatim>\<open>fetch\<close> builds its URL, requests it, and
  maps the items of the body to objects, saving each one as it goes; the promise of a
  \<^verbatim>\<open>save\<close> is dropped, so a rejected insert is not noticed.
\<close>

definition Weather_save :: "env \<Rightarrow> obj \<Rightarrow> int \<Rightarrow> world \<Rightarrow> (error + result) \<times> world" where
  "Weather_save e this ident w =
     client_query e
       (Insert ''weathers'' [''forecast'', ''time'', ''created_at'', ''location_id'']
          (Object_values this @ [Num ident])) w"

definition Weather_url :: "env \<Rightarrow> location \<Rightarrow> string" where
  "Weather_url e location =
     ''https://api.darksky.net/forecast/'' @ WEATHER_API_KEY e @ ''/'' @ latitude location @
       '','' @ longitude location"

definition Weather_fetch :: "env \<Rightarrow> location \<Rightarrow> world \<Rightarrow> (error + payload) \<times> world" where
  "Weather_fetch e location w =
     (case superagent_get e (Weather_url e location) None w of
        (Inl err, w1) \<Rightarrow> (Inl err, w1)
      | (Inr (DarkSkyBody data), w1) \<Rightarrow>
          (case array_map
                  (\<lambda>d w. let summary = new_Weather e d
                         in (summary, snd (Weather_save e summary (loc_id location) w)))
                  data w1 of
             (weatherSummaries, w2) \<Rightarrow> (Inr (Records weatherSummaries), w2))
      | (Inr _, w1) \<Rightarrow> (Inl TypeError, w1))"

definition Events_save :: "env \<Rightarrow> obj \<Rightarrow> int \<Rightarrow> world \<Rightarrow> (error + result) \<times> world" where
  "Events_save e this ident w =
     client_query e
       (Insert ''events''
          [''link'', ''name'', ''event_date'', ''summary'', ''created_at'', ''location_id'']
          (Object_values this @ [Num ident])) w"

definition Events_url :: "env \<Rightarrow> location \<Rightarrow> string" where
  "Events_url e location =
     ''https://www.eventbriteapi.com/v3/events/search?token='' @ EVENTBRITE_API_KEY e @
       ''&location.address='' @ formatted_query location"

definition Events_fetch :: "env \<Rightarrow> location \<Rightarrow> world \<Rightarrow> (error + payload) \<times> world" where
  "Events_fetch e location w =
     (case superagent_get e (Events_url e location) None
             (console_log (Msg ''here in event fetch'') w) of
        (Inl err, w1) \<Rightarrow> (Inl err, w1)
      | (Inr (EventbriteBody events), w1) \<Rightarrow>
          (case array_map
                  (\<lambda>ev w. let summary = new_Events e ev
                          in (summary, snd (Events_save e summary (loc_id location) w)))
                  events w1 of
             (eventSummaries, w2) \<Rightarrow> (Inr (Records eventSummaries), w2))
      | (Inr _, w1) \<Rightarrow> (Inl TypeError, w1))"

definition Movies_save :: "env \<Rightarrow> obj \<Rightarrow> int \<Rightarrow> world \<Rightarrow> (error + result) \<times> world" where
  "Movies_save e this ident w =
     client_query e
       (Insert ''movies''
          [''title'', ''released_on'', ''total_votes'', ''average_votes'', ''popularity'',
           ''overview'', ''image_url'', ''created_at'', ''location_id'']
          (Object_values this @ [Num ident])) w"

definition Movies_url :: "env \<Rightarrow> location \<Rightarrow> string" where
  "Movies_url e location =
     ''https://api.themoviedb.org/3/movie/now_playing?api_key='' @ MOVIE_API_KEY e @
       ''&language=en-US&page=1''"

text \<open>
  \<^verbatim>\<open>Movies.fetch\<close> and \<^verbatim>\<open>Yelp.fetch\<close> end in a \<^verbatim>\<open>.catch\<close> that prints the error:
  their promise then resolves with \<^verbatim>\<open>undefined\<close> (\<open>Nothing\<close>) and is never rejected.
\<close>

definition Movies_fetch :: "env \<Rightarrow> location \<Rightarrow> world \<Rightarrow> (error + payload) \<times> world" where
  "Movies_fetch e location w =
     (case superagent_get e (Movies_url e location) None
             (console_log (Msg ''here in movie fetch'') w) of
        (Inl err, w1) \<Rightarrow> (Inr Nothing, console_log (Err err) w1)
      | (Inr (TmdbBody results), w1) \<Rightarrow>
          (case array_map
                  (\<lambda>m w. let summary = new_Movies e m
                         in (summary, snd (Movies_save e summary (loc_id location) w)))
                  results w1 of
             (movieSummaries, w2) \<Rightarrow> (Inr (Records movieSummaries), w2))
      | (Inr _, w1) \<Rightarrow> (Inr Nothing, console_log (Err TypeError) w1))"

definition Yelp_save :: "env \<Rightarrow> obj \<Rightarrow> int \<Rightarrow> world \<Rightarrow> (error + result) \<times> world" where
  "Yelp_save e this ident w =
     client_query e
       (Insert ''yelps''
          [''name'', ''rating'', ''price'', ''url'', ''image_url'', ''created_at'', ''location_id'']
          (Object_values this @ [Num ident])) w"

definition Yelp_url :: "env \<Rightarrow> location \<Rightarrow> string" where
  "Yelp_url e location =
     ''https://api.yelp.com/v3/businesses/search?location='' @ search_query location"

definition Yelp_fetch :: "env \<Rightarrow> location \<Rightarrow> world \<Rightarrow> (error + payload) \<times> world" where
  "Yelp_fetch e location w =
     (case superagent_get e (Yelp_url e location) (Some (''Bearer '' @ YELP_API_KEY e))
             (console_log (Msg ''here in yelp'') w) of
        (Inl err, w1) \<Rightarrow> (Inr Nothing, console_log (Err err) w1)
      | (Inr (YelpBody businesses), w1) \<Rightarrow>
          (case array_map
                  (\<lambda>review w. let summary = new_Yelp e review
                              in (summary, snd (Yelp_save e summary (loc_id location) w)))
                  businesses w1 of
             (yelpSummaries, w2) \<Rightarrow> (Inr (Records yelpSummaries), w2))
      | (Inr _, w1) \<Rightarrow> (Inr Nothing, console_log (Err TypeError) w1))"

section \<open>Route callbacks\<close>

text \<open>
  \<^verbatim>\<open>Date.now() - result.rows[0].created_at\<close> converts the column to a number
  (\<open>None\<close> is \<^verbatim>\<open>NaN\<close>), and a comparison with \<^verbatim>\<open>NaN\<close> is false.
\<close>

definition ToNumber :: "env \<Rightarrow> jsval \<Rightarrow> int option" where
  "ToNumber e v =
     (case v of
        Num c \<Rightarrow> Some c
      | Str s \<Rightarrow> StringToNumber e s
      | Undefined \<Rightarrow> None)"

definition js_minus :: "env \<Rightarrow> int \<Rightarrow> jsval \<Rightarrow> int option" where
  "js_minus e a v = (case ToNumber e v of None \<Rightarrow> None | Some c \<Rightarrow> Some (a - c))"

definition js_gt :: "int option \<Rightarrow> int \<Rightarrow> bool" where
  "js_gt a b = (case a of None \<Rightarrow> False | Some x \<Rightarrow> x > b)"

definition searchCoords :: "env \<Rightarrow> string \<Rightarrow> world \<Rightarrow> world" where
  "searchCoords e query w =
     (let locationHandler =
        \<lparr>handler_query = query,
         locationHit = (\<lambda>results w.
           response_send (case rows results of [] \<Rightarrow> Nothing | r # _ \<Rightarrow> Record r)
             (console_log (Msg ''Got the data Locations'') w)),
         locationMiss = (\<lambda>_ w.
           case fetchLocation e query (console_log (Msg ''Fetching Locations'') w) of
             (Inl err, w1) \<Rightarrow> console_log (Err err) w1
           | (Inr results, w1) \<Rightarrow> response_send (Record results) w1)\<rparr>
      in Location_lookup e locationHandler w)"

text \<open>
  In the stale branch of each \<open>cacheHit\<close> the source reads \<^verbatim>\<open>this.cacheMiss;\<close>
  without calling it: the statement has no effect, so the branch ends after the delete,
  whose promise is dropped.
\<close>

definition getWeather :: "env \<Rightarrow> location \<Rightarrow> world \<Rightarrow> world" where
  "getWeather e data w =
     (let weatherHandler =
        \<lparr>handler_location = data,
         handler_tableName = tableName Weather,
         cacheHit = (\<lambda>result w.
           case rows result of
             [] \<Rightarrow> Inl TypeError
           | first # _ \<Rightarrow>
               (let ageOfResults = js_minus e (now e) (js_get first ''created_at'')
                in if js_gt ageOfResults (timeouts Weather) then
                     Inr (snd (deleteByLocationId e (tableName Weather) (loc_id data)
                            (console_log (Msg ''weather cache was invalid'') w)))
                   else
                     Inr (response_send (Records (rows result))
                            (console_log (Msg ''weather cache was valid'') w)))),
         cacheMiss = (\<lambda>w.
           case Weather_fetch e data (console_log (Msg ''Fetching Weather'') w) of
             (Inl err, w1) \<Rightarrow> console_log (Err err) w1
           | (Inr results, w1) \<Rightarrow> response_send results w1)\<rparr>
      in snd (lookup e weatherHandler w))"

definition getEvents :: "env \<Rightarrow> location \<Rightarrow> world \<Rightarrow> world" where
  "getEvents e data w =
     (let eventHandler =
        \<lparr>handler_location = data,
         handler_tableName = tableName Events,
         cacheHit = (\<lambda>result w.
           case rows result of
             [] \<Rightarrow> Inl TypeError
           | first # _ \<Rightarrow>
               (let ageOfResults = js_minus e (now e) (js_get first ''created_at'')
                in if js_gt ageOfResults (timeouts Events) then
                     Inr (snd (deleteByLocationId e (tableName Events) (loc_id data)
                            (console_log (Msg ''events cache was invalid'') w)))
                   else
                     Inr (response_send (Records (rows result))
                            (console_log (Msg ''events cache was valid'') w)))),
         cacheMiss = (\<lambda>w.
           case Events_fetch e data (console_log (Msg ''Fetching Event'') w) of
             (Inl err, w1) \<Rightarrow> console_log (Err err) w1
           | (Inr results, w1) \<Rightarrow> response_send results w1)\<rparr>
      in snd (lookup e eventHandler w))"

definition getMovies :: "env \<Rightarrow> location \<Rightarrow> world \<Rightarrow> world" where
  "getMovies e data w =
     (let eventHandler =
        \<lparr>handler_location = data,
         handler_tableName = tableName Movies,
         cacheHit = (\<lambda>result w.
           case rows result of
             [] \<Rightarrow> Inl TypeError
           | first # _ \<Rightarrow>
               (let ageOfResults = js_minus e (now e) (js_get first ''created_at'')
                in if js_gt ageOfResults (timeouts Movies) then
                     Inr (snd (deleteByLocationId e (tableName Movies) (loc_id data)
                            (console_log (Msg ''movies cache was invalid'') w)))
                   else
                     Inr (response_send (Records (rows result))
                            (console_log (Msg ''movies cache was valid'') w)))),
         cacheMiss = (\<lambda>w.
           case Movies_fetch e data (console_log (Msg ''Fetching Movies'') w) of
             (Inl err, w1) \<Rightarrow> console_log (Err err) w1
           | (Inr results, w1) \<Rightarrow> response_send results w1)\<rparr>
      in snd (lookup e eventHandler w))"

definition getYelp :: "env \<Rightarrow> location \<Rightarrow> world \<Rightarrow> world" where
  "getYelp e data w =
     (let eventHandler =
        \<lparr>handler_location = data,
         handler_tableName = tableName Yelp,
         cacheHit = (\<lambda>result w.
           case rows result of
             [] \<Rightarrow> Inl TypeError
           | first # _ \<Rightarrow>
               (let ageOfResults = js_minus e (now e) (js_get first ''created_at'')
                in if js_gt ageOfResults (timeouts Yelp) then
                     Inr (snd (deleteByLocationId e (tableName Yelp) (loc_id data)
                            (console_log (Msg ''yelp cache was invalid'') w)))
                   else
                     Inr (response_send (Records (rows result))
                            (console_log (Msg ''yelp cache was valid'') w)))),
         cacheMiss = (\<lambda>w.
           case Yelp_fetch e data (console_log (Msg ''Fetching Yelp'') w) of
             (Inl err, w1) \<Rightarrow> console_log (Err err) w1
           | (Inr results, w1) \<Rightarrow> response_send results w1)\<rparr>
      in snd (lookup e eventHandler w))"

section \<open>Routes\<close>

text \<open>
  The four resource routes and the provider fetch of each kind, by kind, so that a
  property can be stated once for every resource kind.
\<close>

fun route :: "kind \<Rightarrow> env \<Rightarrow> location \<Rightarrow> world \<Rightarrow> world" where
  "route Weather = getWeather"
| "route Events = getEvents"
| "route Movies = getMovies"
| "route Yelp = getYelp"

fun fetch :: "kind \<Rightarrow> env \<Rightarrow> location \<Rightarrow> world \<Rightarrow> (error + payload) \<times> world" where
  "fetch Weather = Weather_fetch"
| "fetch Events = Events_fetch"
| "fetch Movies = Movies_fetch"
| "fetch Yelp = Yelp_fetch"

fun url_of :: "kind \<Rightarrow> env \<Rightarrow> location \<Rightarrow> string" where
  "url_of Weather = Weather_url"
| "url_of Events = Events_url"
| "url_of Movies = Movies_url"
| "url_of Yelp = Yelp_url"

text \<open>The persisted batch of a kind for a location: what the \<^verbatim>\<open>SELECT\<close> of \<open>lookup\<close> finds.\<close>

definition cached :: "kind \<Rightarrow> location \<Rightarrow> world \<Rightarrow> obj list" where
  "cached k l w =
     filter (\<lambda>r. js_get r ''location_id'' = Num (loc_id l)) (tables (db w) (tableName k))"

definition lookup_statement :: "kind \<Rightarrow> location \<Rightarrow> statement" where
  "lookup_statement k l = Select (tableName k) ''location_id'' (Num (loc_id l))"

section \<open>Vocabulary for the properties\<close>

text \<open>The line each \<open>cacheMiss\<close> prints before it fetches.\<close>

fun fetching :: "kind \<Rightarrow> string" where
  "fetching Weather = ''Fetching Weather''"
| "fetching Events = ''Fetching Event''"
| "fetching Movies = ''Fetching Movies''"
| "fetching Yelp = ''Fetching Yelp''"

text \<open>The \<^verbatim>\<open>Authorization\<close> header of each provider request: only Yelp sets one.\<close>

fun auth_of :: "kind \<Rightarrow> env \<Rightarrow> string option" where
  "auth_of Yelp e = Some (''Bearer '' @ YELP_API_KEY e)"
| "auth_of _ e = None"

text \<open>The property names each constructor sets, in order: the canonical fields of a kind.\<close>

fun fields :: "kind \<Rightarrow> string list" where
  "fields Weather = [''forecast'', ''time'', ''created_at'']"
| "fields Events = [''link'', ''name'', ''event_date'', ''summary'', ''created_at'']"
| "fields Movies =
     [''title'', ''released_on'', ''total_votes'', ''average_votes'', ''popularity'', ''overview'',
      ''image_url'', ''created_at'']"
| "fields Yelp = [''name'', ''rating'', ''price'', ''url'', ''image_url'', ''created_at'']"

text \<open>
  The rows that saving the records \<open>recs\<close>, in order, for the location \<open>i\<close> adds to a
  table whose id counter stands at \<open>n\<close>.
\<close>

fun stored_rows :: "int \<Rightarrow> int \<Rightarrow> obj list \<Rightarrow> obj list" where
  "stored_rows n i [] = []"
| "stored_rows n i (r # rs) =
     ((''id'', Num n) # r @ [(''location_id'', Num i)]) # stored_rows (n + 1) i rs"

text \<open>
  A returned record and a persisted row agree when the row has the record's properties
  between its \<open>id\<close> and its \<open>location_id\<close>, with the same values.
\<close>

definition row_of :: "obj \<Rightarrow> obj \<Rightarrow> bool" where
  "row_of row r \<longleftrightarrow>
     Object_keys row = ''id'' # Object_keys r @ [''location_id''] \<and>
     list_all (\<lambda>f. js_get row f = js_get r f) (Object_keys r)"

text \<open>
  The age of a batch in the words of the specification: the time since the oldest
  \<open>created_at\<close> across the batch. It is defined for a batch that is not empty and whose
  \<open>created_at\<close> values all convert to numbers. The code takes the first row instead.
\<close>

definition batch_age :: "env \<Rightarrow> obj list \<Rightarrow> int option" where
  "batch_age e batch =
     (case those (map (\<lambda>r. ToNumber e (js_get r ''created_at'')) batch) of
        None \<Rightarrow> None
      | Some [] \<Rightarrow> None
      | Some (c # cs) \<Rightarrow> Some (now e - Min (set (c # cs))))"

subsection \<open>Concrete inputs\<close>

text \<open>
  An environment whose clock stands at \<open>t\<close>, whose providers all answer \<open>answer\<close>, and
  whose database rejects every statement when \<open>down\<close> holds; two locations; two
  weather rows for the first one, created at times 0 and 3000; a day of the forecast and
  the record built from it at time \<open>t\<close>; a world whose table \<open>t\<close> holds the rows \<open>rs\<close>.
\<close>

definition env_at :: "int \<Rightarrow> (error + body) \<Rightarrow> bool \<Rightarrow> env" where
  "env_at t answer down =
     \<lparr>now = t, GEOCODE_API_KEY = ''G'', WEATHER_API_KEY = ''W'', EVENTBRITE_API_KEY = ''E'',
      MOVIE_API_KEY = ''M'', YELP_API_KEY = ''Y'',
      http = (\<lambda>_ _. answer), query_fails = (\<lambda>_. down),
      toDateString = (\<lambda>_. ''Mon Jan 01 2024''), Date_parse = (\<lambda>_. None),
      StringToNumber = (\<lambda>_. None)\<rparr>"

definition seattle :: location where
  "seattle =
     \<lparr>loc_id = 1, search_query = ''seattle'', formatted_query = ''Seattle, WA, USA'',
      latitude = ''47.6062'', longitude = ''-122.3321''\<rparr>"

definition paris :: location where
  "paris =
     \<lparr>loc_id = 2, search_query = ''paris'', formatted_query = ''Paris, France'',
      latitude = ''48.8566'', longitude = ''2.3522''\<rparr>"

definition clear_row :: obj where
  "clear_row =
     [(''id'', Num 1), (''forecast'', Str ''Clear''), (''time'', Str ''Mon Jan 01 2024''),
      (''created_at'', Num 0), (''location_id'', Num 1)]"

definition cloudy_row :: obj where
  "cloudy_row =
     [(''id'', Num 2), (''forecast'', Str ''Cloudy''), (''time'', Str ''Tue Jan 02 2024''),
      (''created_at'', Num 3000), (''location_id'', Num 1)]"

definition rain_day :: day where
  "rain_day = \<lparr>day_summary = Str ''Rain'', day_time = 1704067200\<rparr>"

definition rain_record :: "int \<Rightarrow> obj" where
  "rain_record t =
     [(''forecast'', Str ''Rain''), (''time'', Str ''Mon Jan 01 2024''), (''created_at'', Num t)]"

definition world_with :: "string \<Rightarrow> obj list \<Rightarrow> world" where
  "world_with t rs =
     \<lparr>db = \<lparr>tables = (\<lambda>x. if x = t then rs else []), serial = (\<lambda>_. 2)\<rparr>,
      requests = [], console = [], sent = []\<rparr>"

text \<open>
  An environment whose database rejects every \<^verbatim>\<open>INSERT\<close> and accepts every other
  statement, and a geocoding result for Seattle.
\<close>

definition env_rejecting_inserts :: "(error + body) \<Rightarrow> env" where
  "env_rejecting_inserts answer =
     (env_at 0 answer False)
       \<lparr>query_fails := (\<lambda>q. case q of Insert t cols vals \<Rightarrow> True | _ \<Rightarrow> False)\<rparr>"

definition seattle_geo :: geo where
  "seattle_geo =
     \<lparr>geo_formatted_address = ''Seattle, WA, USA'', geo_lat = ''47.6062'',
      geo_lng = ''-122.3321''\<rparr>"

section \<open>The database statements\<close>

lemma select_query:
  "client_query e (Select t ''location_id'' (Num i)) w =
     (if query_fails e (Select t ''location_id'' (Num i)) then (Inl DbError, w)
      else (Inr \<lparr>rowCount = length (filter (\<lambda>r. js_get r ''location_id'' = Num i) (tables (db w) t)),
                 rows = filter (\<lambda>r. js_get r ''location_id'' = Num i) (tables (db w) t)\<rparr>, w))"
  by (simp add: client_query_def store_query_def Let_def)

lemma delete_query:
  "client_query e (Delete t i) w =
     (if query_fails e (Delete t i) then (Inl DbError, w)
      else (Inr \<lparr>rowCount = length (filter (\<lambda>r. js_get r ''location_id'' = Num i) (tables (db w) t)),
                 rows = []\<rparr>,
            w\<lparr>db := (db w)\<lparr>tables := (tables (db w))
                (t := filter (\<lambda>r. js_get r ''location_id'' \<noteq> Num i) (tables (db w) t))\<rparr>\<rparr>))"
  by (simp add: client_query_def store_query_def Let_def)

lemma insert_query:
  assumes "\<not> query_fails e (Insert t cols vals)" and "length cols = length vals"
  shows "snd (client_query e (Insert t cols vals) w) =
     w\<lparr>db := (db w)\<lparr>tables := (tables (db w))
              (t := tables (db w) t @ [(''id'', Num (serial (db w) t)) # zip cols vals]),
            serial := (serial (db w))(t := serial (db w) t + 1)\<rparr>\<rparr>"
  using assms by (simp add: client_query_def store_query_def Let_def)

lemma client_query_frame:
  "requests (snd (client_query e q w)) = requests w"
  "console (snd (client_query e q w)) = console w"
  "sent (snd (client_query e q w)) = sent w"
  by (simp_all add: client_query_def split: prod.splits)

section \<open>The four paths of a resource route\<close>

lemma route_fail:
  assumes "query_fails e (lookup_statement k l)"
  shows "route k e l w = console_log (ErrorObj 500 ''Sorry something went wrong'') w"
  using assms
  by (cases k)
     (simp_all add: getWeather_def getEvents_def getMovies_def getYelp_def lookup_def
        select_query lookup_statement_def errorMessage_def Let_def)

lemma route_miss:
  assumes "\<not> query_fails e (lookup_statement k l)" and "cached k l w = []"
  shows "route k e l w =
     (case fetch k e l (console_log (Msg (fetching k)) w) of
        (Inl err, w1) \<Rightarrow> console_log (Err err) w1
      | (Inr results, w1) \<Rightarrow> response_send results w1)"
  using assms
  by (cases k)
     (simp_all add: getWeather_def getEvents_def getMovies_def getYelp_def lookup_def
        select_query lookup_statement_def cached_def Let_def)

lemma route_hit:
  assumes "\<not> query_fails e (lookup_statement k l)" and "cached k l w = r # rs"
    and "\<not> js_gt (js_minus e (now e) (js_get r ''created_at'')) (timeouts k)"
  shows "sent (route k e l w) = sent w @ [Records (r # rs)]"
    and "requests (route k e l w) = requests w"
    and "db (route k e l w) = db w"
  using assms
  by (cases k;
      simp add: getWeather_def getEvents_def getMovies_def getYelp_def lookup_def
        select_query lookup_statement_def cached_def Let_def response_send_def console_log_def)+


section \<open>What a provider fetch saves\<close>

lemma zip_keys_values: "zip (Object_keys r @ [c]) (Object_values r @ [v]) = r @ [(c, v)]"
  by (simp add: Object_keys_def Object_values_def zip_map_fst_snd)

lemma array_map_frame:
  assumes "\<And>x v. P (snd (f x v)) = P v"
  shows "P (snd (array_map f xs w)) = P w"
proof (induction xs arbitrary: w)
  case Nil
  show ?case by simp
next
  case (Cons x xs)
  have "P (snd (array_map f xs (snd (f x w)))) = P w"
    using Cons.IH [of "snd (f x w)"] assms [of x w] by simp
  then show ?case
    by (simp add: case_prod_beta)
qed

lemma array_map_save:
  assumes "\<forall>x\<in>set xs. \<not> query_fails e (Insert t cols (Object_values (g x) @ [Num i])) \<and>
             cols = Object_keys (g x) @ [''location_id'']"
  shows "(case array_map (\<lambda>x w. let summary = g x in
             (summary, snd (client_query e (Insert t cols (Object_values summary @ [Num i])) w)))
           xs w of
         (ys, w') \<Rightarrow> ys = map g xs \<and>
           requests w' = requests w \<and> console w' = console w \<and> sent w' = sent w \<and>
           (\<forall>u. tables (db w') u =
              (if u = t then tables (db w) t @ stored_rows (serial (db w) t) i (map g xs)
               else tables (db w) u)) \<and>
           (\<forall>u. serial (db w') u =
              (if u = t then serial (db w) t + int (length xs) else serial (db w) u)))"
  using assms
proof (induction xs arbitrary: w)
  case Nil
  then show ?case by simp
next
  case (Cons x xs)
  let ?w1 = "snd (client_query e (Insert t cols (Object_values (g x) @ [Num i])) w)"
  from Cons.prems have ok: "\<not> query_fails e (Insert t cols (Object_values (g x) @ [Num i]))"
    and cols: "cols = Object_keys (g x) @ [''location_id'']"
    and rest: "\<forall>x\<in>set xs. \<not> query_fails e (Insert t cols (Object_values (g x) @ [Num i])) \<and>
             cols = Object_keys (g x) @ [''location_id'']"
    by auto
  have len: "length cols = length (Object_values (g x) @ [Num i])"
    by (simp add: cols Object_keys_def Object_values_def)
  have w1: "?w1 = w\<lparr>db := (db w)\<lparr>tables := (tables (db w))
              (t := tables (db w) t @ [(''id'', Num (serial (db w) t)) # g x @ [(''location_id'', Num i)]]),
            serial := (serial (db w))(t := serial (db w) t + 1)\<rparr>\<rparr>"
    using insert_query [OF ok len, of w] zip_keys_values [of "g x" "''location_id''" "Num i"]
    by (simp add: cols)
  from Cons.IH [OF rest, of ?w1] show ?case
    by (simp add: Let_def w1 split: prod.splits)
qed

lemma keys_new_Weather: "Object_keys (new_Weather e x) = fields Weather"
  by (simp add: new_Weather_def Object_keys_def Let_def)

lemma created_new_Weather: "js_get (new_Weather e x) ''created_at'' = Num (now e)"
  by (simp add: new_Weather_def js_get_def Let_def)

lemma Weather_fetch_frame:
  "sent (snd (Weather_fetch e l w)) = sent w"
  "requests (snd (Weather_fetch e l w)) = requests w @ [(Weather_url e l, None)]"
proof -
  let ?F = "\<lambda>x w. let summary = new_Weather e x
                   in (summary, snd (Weather_save e summary (loc_id l) w))"
  have s: "sent (snd (array_map ?F xs v)) = sent v" for xs v
    by (rule array_map_frame) (simp add: Weather_save_def client_query_frame Let_def)
  have r: "requests (snd (array_map ?F xs v)) = requests v" for xs v
    by (rule array_map_frame) (simp add: Weather_save_def client_query_frame Let_def)
  show "sent (snd (Weather_fetch e l w)) = sent w"
    by (simp add: Weather_fetch_def superagent_get_def console_log_def case_prod_beta s
        split: sum.splits body.splits)
  show "requests (snd (Weather_fetch e l w)) = requests w @ [(Weather_url e l, None)]"
    by (simp add: Weather_fetch_def superagent_get_def console_log_def case_prod_beta r
        split: sum.splits body.splits)
qed

lemma Weather_fetch_records:
  assumes got: "fst (Weather_fetch e l w) = Inr (Records recs)"
    and ok: "\<forall>c v. \<not> query_fails e (Insert ''weathers'' c v)"
  shows "(\<forall>u. tables (db (snd (Weather_fetch e l w))) u =
        (if u = ''weathers'' then tables (db w) u @ stored_rows (serial (db w) u) (loc_id l) recs
         else tables (db w) u)) \<and>
     (\<forall>r\<in>set recs. Object_keys r = fields Weather \<and> js_get r ''created_at'' = Num (now e))"
proof -
  from got obtain items where h: "http e (Weather_url e l) None = Inr (DarkSkyBody items)"
    by (auto simp: Weather_fetch_def superagent_get_def split: sum.splits body.splits prod.splits)
  let ?w0 = "w"
  let ?w1 = "?w0\<lparr>requests := requests ?w0 @ [(Weather_url e l, None)]\<rparr>"
  let ?cols = "[''forecast'', ''time'', ''created_at'', ''location_id'']"
  let ?F = "\<lambda>x w. let summary = new_Weather e x in
     (summary, snd (client_query e (Insert ''weathers'' ?cols
        (Object_values summary @ [Num (loc_id l)])) w))"
  obtain ys w2 where am: "array_map ?F items ?w1 = (ys, w2)"
    by (cases "array_map ?F items ?w1")
  have run: "Weather_fetch e l w = (Inr (Records ys), w2)"
    using h am by (simp add: Weather_fetch_def superagent_get_def Weather_save_def)
  have "\<forall>x\<in>set items.
      \<not> query_fails e (Insert ''weathers'' ?cols (Object_values (new_Weather e x) @ [Num (loc_id l)])) \<and>
      ?cols = Object_keys (new_Weather e x) @ [''location_id'']"
    using ok by (simp add: keys_new_Weather)
  from array_map_save [OF this, of ?w1] am
  have "ys = map (new_Weather e) items \<and>
     (\<forall>u. tables (db w2) u =
        (if u = ''weathers'' then tables (db w) u @ stored_rows (serial (db w) u) (loc_id l) ys
         else tables (db w) u))"
    by (simp add: console_log_def)
  moreover have "recs = ys"
    using got run by simp
  ultimately show ?thesis
    using run by (simp add: keys_new_Weather created_new_Weather)
qed

lemma keys_new_Events: "Object_keys (new_Events e x) = fields Events"
  by (simp add: new_Events_def Object_keys_def Let_def)

lemma created_new_Events: "js_get (new_Events e x) ''created_at'' = Num (now e)"
  by (simp add: new_Events_def js_get_def Let_def)

lemma Events_fetch_frame:
  "sent (snd (Events_fetch e l w)) = sent w"
  "requests (snd (Events_fetch e l w)) = requests w @ [(Events_url e l, None)]"
proof -
  let ?F = "\<lambda>x w. let summary = new_Events e x
                   in (summary, snd (Events_save e summary (loc_id l) w))"
  have s: "sent (snd (array_map ?F xs v)) = sent v" for xs v
    by (rule array_map_frame) (simp add: Events_save_def client_query_frame Let_def)
  have r: "requests (snd (array_map ?F xs v)) = requests v" for xs v
    by (rule array_map_frame) (simp add: Events_save_def client_query_frame Let_def)
  show "sent (snd (Events_fetch e l w)) = sent w"
    by (simp add: Events_fetch_def superagent_get_def console_log_def case_prod_beta s
        split: sum.splits body.splits)
  show "requests (snd (Events_fetch e l w)) = requests w @ [(Events_url e l, None)]"
    by (simp add: Events_fetch_def superagent_get_def console_log_def case_prod_beta r
        split: sum.splits body.splits)
qed

lemma Events_fetch_records:
  assumes got: "fst (Events_fetch e l w) = Inr (Records recs)"
    and ok: "\<forall>c v. \<not> query_fails e (Insert ''events'' c v)"
  shows "(\<forall>u. tables (db (snd (Events_fetch e l w))) u =
        (if u = ''events'' then tables (db w) u @ stored_rows (serial (db w) u) (loc_id l) recs
         else tables (db w) u)) \<and>
     (\<forall>r\<in>set recs. Object_keys r = fields Events \<and> js_get r ''created_at'' = Num (now e))"
proof -
  from got obtain items where h: "http e (Events_url e l) None = Inr (EventbriteBody items)"
    by (auto simp: Events_fetch_def superagent_get_def split: sum.splits body.splits prod.splits)
  let ?w0 = "(console_log (Msg ''here in event fetch'') w)"
  let ?w1 = "?w0\<lparr>requests := requests ?w0 @ [(Events_url e l, None)]\<rparr>"
  let ?cols = "[''link'', ''name'', ''event_date'', ''summary'', ''created_at'', ''location_id'']"
  let ?F = "\<lambda>x w. let summary = new_Events e x in
     (summary, snd (client_query e (Insert ''events'' ?cols
        (Object_values summary @ [Num (loc_id l)])) w))"
  obtain ys w2 where am: "array_map ?F items ?w1 = (ys, w2)"
    by (cases "array_map ?F items ?w1")
  have run: "Events_fetch e l w = (Inr (Records ys), w2)"
    using h am by (simp add: Events_fetch_def superagent_get_def Events_save_def)
  have "\<forall>x\<in>set items.
      \<not> query_fails e (Insert ''events'' ?cols (Object_values (new_Events e x) @ [Num (loc_id l)])) \<and>
      ?cols = Object_keys (new_Events e x) @ [''location_id'']"
    using ok by (simp add: keys_new_Events)
  from array_map_save [OF this, of ?w1] am
  have "ys = map (new_Events e) items \<and>
     (\<forall>u. tables (db w2) u =
        (if u = ''events'' then tables (db w) u @ stored_rows (serial (db w) u) (loc_id l) ys
         else tables (db w) u))"
    by (simp add: console_log_def)
  moreover have "recs = ys"
    using got run by simp
  ultimately show ?thesis
    using run by (simp add: keys_new_Events created_new_Events)
qed

lemma keys_new_Movies: "Object_keys (new_Movies e x) = fields Movies"
  by (simp add: new_Movies_def Object_keys_def Let_def)

lemma created_new_Movies: "js_get (new_Movies e x) ''created_at'' = Num (now e)"
  by (simp add: new_Movies_def js_get_def Let_def)

lemma Movies_fetch_frame:
  "sent (snd (Movies_fetch e l w)) = sent w"
  "requests (snd (Movies_fetch e l w)) = requests w @ [(Movies_url e l, None)]"
proof -
  let ?F = "\<lambda>x w. let summary = new_Movies e x
                   in (summary, snd (Movies_save e summary (loc_id l) w))"
  have s: "sent (snd (array_map ?F xs v)) = sent v" for xs v
    by (rule array_map_frame) (simp add: Movies_save_def client_query_frame Let_def)
  have r: "requests (snd (array_map ?F xs v)) = requests v" for xs v
    by (rule array_map_frame) (simp add: Movies_save_def client_query_frame Let_def)
  show "sent (snd (Movies_fetch e l w)) = sent w"
    by (simp add: Movies_fetch_def superagent_get_def console_log_def case_prod_beta s
        split: sum.splits body.splits)
  show "requests (snd (Movies_fetch e l w)) = requests w @ [(Movies_url e l, None)]"
    by (simp add: Movies_fetch_def superagent_get_def console_log_def case_prod_beta r
        split: sum.splits body.splits)
qed

lemma Movies_fetch_records:
  assumes got: "fst (Movies_fetch e l w) = Inr (Records recs)"
    and ok: "\<forall>c v. \<not> query_fails e (Insert ''movies'' c v)"
  shows "(\<forall>u. tables (db (snd (Movies_fetch e l w))) u =
        (if u = ''movies'' then tables (db w) u @ stored_rows (serial (db w) u) (loc_id l) recs
         else tables (db w) u)) \<and>
     (\<forall>r\<in>set recs. Object_keys r = fields Movies \<and> js_get r ''created_at'' = Num (now e))"
proof -
  from got obtain items where h: "http e (Movies_url e l) None = Inr (TmdbBody items)"
    by (auto simp: Movies_fetch_def superagent_get_def split: sum.splits body.splits prod.splits)
  let ?w0 = "(console_log (Msg ''here in movie fetch'') w)"
  let ?w1 = "?w0\<lparr>requests := requests ?w0 @ [(Movies_url e l, None)]\<rparr>"
  let ?cols = "[''title'', ''released_on'', ''total_votes'', ''average_votes'', ''popularity'',
       ''overview'', ''image_url'', ''created_at'', ''location_id'']"
  let ?F = "\<lambda>x w. let summary = new_Movies e x in
     (summary, snd (client_query e (Insert ''movies'' ?cols
        (Object_values summary @ [Num (loc_id l)])) w))"
  obtain ys w2 where am: "array_map ?F items ?w1 = (ys, w2)"
    by (cases "array_map ?F items ?w1")
  have run: "Movies_fetch e l w = (Inr (Records ys), w2)"
    using h am by (simp add: Movies_fetch_def superagent_get_def Movies_save_def)
  have "\<forall>x\<in>set items.
      \<not> query_fails e (Insert ''movies'' ?cols (Object_values (new_Movies e x) @ [Num (loc_id l)])) \<and>
      ?cols = Object_keys (new_Movies e x) @ [''location_id'']"
    using ok by (simp add: keys_new_Movies)
  from array_map_save [OF this, of ?w1] am
  have "ys = map (new_Movies e) items \<and>
     (\<forall>u. tables (db w2) u =
        (if u = ''movies'' then tables (db w) u @ stored_rows (serial (db w) u) (loc_id l) ys
         else tables (db w) u))"
    by (simp add: console_log_def)
  moreover have "recs = ys"
    using got run by simp
  ultimately show ?thesis
    using run by (simp add: keys_new_Movies created_new_Movies)
qed

lemma keys_new_Yelp: "Object_keys (new_Yelp e x) = fields Yelp"
  by (simp add: new_Yelp_def Object_keys_def Let_def)

lemma created_new_Yelp: "js_get (new_Yelp e x) ''created_at'' = Num (now e)"
  by (simp add: new_Yelp_def js_get_def Let_def)

lemma Yelp_fetch_frame:
  "sent (snd (Yelp_fetch e l w)) = sent w"
  "requests (snd (Yelp_fetch e l w)) = requests w @ [(Yelp_url e l, (Some (''Bearer '' @ YELP_API_KEY e)))]"
proof -
  let ?F = "\<lambda>x w. let summary = new_Yelp e x
                   in (summary, snd (Yelp_save e summary (loc_id l) w))"
  have s: "sent (snd (array_map ?F xs v)) = sent v" for xs v
    by (rule array_map_frame) (simp add: Yelp_save_def client_query_frame Let_def)
  have r: "requests (snd (array_map ?F xs v)) = requests v" for xs v
    by (rule array_map_frame) (simp add: Yelp_save_def client_query_frame Let_def)
  show "sent (snd (Yelp_fetch e l w)) = sent w"
    by (simp add: Yelp_fetch_def superagent_get_def console_log_def case_prod_beta s
        split: sum.splits body.splits)
  show "requests (snd (Yelp_fetch e l w)) = requests w @ [(Yelp_url e l, (Some (''Bearer '' @ YELP_API_KEY e)))]"
    by (simp add: Yelp_fetch_def superagent_get_def console_log_def case_prod_beta r
        split: sum.splits body.splits)
qed

lemma Yelp_fetch_records:
  assumes got: "fst (Yelp_fetch e l w) = Inr (Records recs)"
    and ok: "\<forall>c v. \<not> query_fails e (Insert ''yelps'' c v)"
  shows "(\<forall>u. tables (db (snd (Yelp_fetch e l w))) u =
        (if u = ''yelps'' then tables (db w) u @ stored_rows (serial (db w) u) (loc_id l) recs
         else tables (db w) u)) \<and>
     (\<forall>r\<in>set recs. Object_keys r = fields Yelp \<and> js_get r ''created_at'' = Num (now e))"
proof -
  from got obtain items where h: "http e (Yelp_url e l) (Some (''Bearer '' @ YELP_API_KEY e)) = Inr (YelpBody items)"
    by (auto simp: Yelp_fetch_def superagent_get_def split: sum.splits body.splits prod.splits)
  let ?w0 = "(console_log (Msg ''here in yelp'') w)"
  let ?w1 = "?w0\<lparr>requests := requests ?w0 @ [(Yelp_url e l, (Some (''Bearer '' @ YELP_API_KEY e)))]\<rparr>"
  let ?cols = "[''name'', ''rating'', ''price'', ''url'', ''image_url'', ''created_at'', ''location_id'']"
  let ?F = "\<lambda>x w. let summary = new_Yelp e x in
     (summary, snd (client_query e (Insert ''yelps'' ?cols
        (Object_values summary @ [Num (loc_id l)])) w))"
  obtain ys w2 where am: "array_map ?F items ?w1 = (ys, w2)"
    by (cases "array_map ?F items ?w1")
  have run: "Yelp_fetch e l w = (Inr (Records ys), w2)"
    using h am by (simp add: Yelp_fetch_def superagent_get_def Yelp_save_def)
  have "\<forall>x\<in>set items.
      \<not> query_fails e (Insert ''yelps'' ?cols (Object_values (new_Yelp e x) @ [Num (loc_id l)])) \<and>
      ?cols = Object_keys (new_Yelp e x) @ [''location_id'']"
    using ok by (simp add: keys_new_Yelp)
  from array_map_save [OF this, of ?w1] am
  have "ys = map (new_Yelp e) items \<and>
     (\<forall>u. tables (db w2) u =
        (if u = ''yelps'' then tables (db w) u @ stored_rows (serial (db w) u) (loc_id l) ys
         else tables (db w) u))"
    by (simp add: console_log_def)
  moreover have "recs = ys"
    using got run by simp
  ultimately show ?thesis
    using run by (simp add: keys_new_Yelp created_new_Yelp)
qed

lemma fetch_sent: "sent (snd (fetch k e l w)) = sent w"
  by (cases k)
     (simp_all add: Weather_fetch_frame Events_fetch_frame Movies_fetch_frame Yelp_fetch_frame)

lemma fetch_requests: "requests (snd (fetch k e l w)) = requests w @ [(url_of k e l, auth_of k e)]"
  by (cases k)
     (simp_all add: Weather_fetch_frame Events_fetch_frame Movies_fetch_frame Yelp_fetch_frame)

lemma fetch_records:
  assumes "fst (fetch k e l w) = Inr (Records recs)"
    and "\<forall>c v. \<not> query_fails e (Insert (tableName k) c v)"
  shows "tables (db (snd (fetch k e l w))) u =
        (if u = tableName k then tables (db w) u @ stored_rows (serial (db w) u) (loc_id l) recs
         else tables (db w) u)"
    and "\<forall>r\<in>set recs. Object_keys r = fields k \<and> js_get r ''created_at'' = Num (now e)"
proof -
  have "(\<forall>u. tables (db (snd (fetch k e l w))) u =
        (if u = tableName k then tables (db w) u @ stored_rows (serial (db w) u) (loc_id l) recs
         else tables (db w) u)) \<and>
     (\<forall>r\<in>set recs. Object_keys r = fields k \<and> js_get r ''created_at'' = Num (now e))"
  proof (cases k)
    case Weather
    with assms Weather_fetch_records [of e l w recs] show ?thesis by simp
  next
    case Events
    with assms Events_fetch_records [of e l w recs] show ?thesis by simp
  next
    case Movies
    with assms Movies_fetch_records [of e l w recs] show ?thesis by simp
  next
    case Yelp
    with assms Yelp_fetch_records [of e l w recs] show ?thesis by simp
  qed
  then show "tables (db (snd (fetch k e l w))) u =
        (if u = tableName k then tables (db w) u @ stored_rows (serial (db w) u) (loc_id l) recs
         else tables (db w) u)"
    and "\<forall>r\<in>set recs. Object_keys r = fields k \<and> js_get r ''created_at'' = Num (now e)"
    by blast+
qed

section \<open>Persisted rows and returned records\<close>

lemma js_get_stored:
  assumes "f \<in> set (Object_keys r)" and "''id'' \<notin> set (Object_keys r)"
  shows "js_get ((''id'', v) # r @ rest) f = js_get r f"
proof -
  from assms have "f \<noteq> ''id''" by auto
  moreover from assms(1) have "map_of r f \<noteq> None"
    by (simp add: Object_keys_def map_of_eq_None_iff)
  ultimately show ?thesis
    by (auto simp: js_get_def map_add_def split: option.splits)
qed

lemma js_get_location_id:
  assumes "''location_id'' \<notin> set (Object_keys r)"
  shows "js_get ((''id'', v) # r @ [(''location_id'', Num i)]) ''location_id'' = Num i"
proof -
  from assms have "map_of r ''location_id'' = None"
    by (simp add: Object_keys_def map_of_eq_None_iff)
  then show ?thesis
    by (simp add: js_get_def map_add_def)
qed

lemma row_of_stored:
  assumes "''id'' \<notin> set (Object_keys r)"
  shows "row_of ((''id'', Num n) # r @ [(''location_id'', Num i)]) r"
  using assms
  by (simp add: row_of_def list_all_iff js_get_stored) (simp add: Object_keys_def)

lemma stored_rows_agree:
  assumes "\<forall>r\<in>set recs. ''id'' \<notin> set (Object_keys r)"
  shows "list_all2 row_of (stored_rows n i recs) recs"
  using assms
  by (induction recs arbitrary: n) (simp_all add: row_of_stored)

lemma stored_rows_cached:
  assumes "\<forall>r\<in>set recs. ''location_id'' \<notin> set (Object_keys r)"
  shows "filter (\<lambda>r. js_get r ''location_id'' = Num i) (stored_rows n i recs) = stored_rows n i recs"
  using assms
  by (induction recs arbitrary: n) (simp_all add: js_get_location_id)

lemma fields_fresh: "''id'' \<notin> set (fields k)" "''location_id'' \<notin> set (fields k)"
  by (cases k; simp)+

lemma route_returns_records:
  assumes ok: "\<not> query_fails e (lookup_statement k l)" and miss: "cached k l w = []"
    and got: "sent (route k e l w) = sent w @ [Records recs]"
  shows "fst (fetch k e l (console_log (Msg (fetching k)) w)) = Inr (Records recs)"
    and "db (route k e l w) = db (snd (fetch k e l (console_log (Msg (fetching k)) w)))"
proof -
  let ?w0 = "console_log (Msg (fetching k)) w"
  obtain res w1 where f: "fetch k e l ?w0 = (res, w1)"
    by (cases "fetch k e l ?w0")
  have s: "sent w1 = sent w"
    using fetch_sent [of k e l ?w0] f by (simp add: console_log_def)
  from route_miss [OF ok miss] f
  have r: "route k e l w =
      (case res of Inl err \<Rightarrow> console_log (Err err) w1 | Inr results \<Rightarrow> response_send results w1)"
    by (simp split: sum.splits)
  from got r s f show "fst (fetch k e l ?w0) = Inr (Records recs)"
    by (cases res) (simp_all add: console_log_def response_send_def)
  from r f show "db (route k e l w) = db (snd (fetch k e l ?w0))"
    by (cases res) (simp_all add: console_log_def response_send_def)
qed



lemma miss_path_cached:
  assumes ok: "\<not> query_fails e (lookup_statement k l)" and miss: "cached k l w = []"
    and ins: "\<forall>c v. \<not> query_fails e (Insert (tableName k) c v)"
    and got: "sent (route k e l w) = sent w @ [Records recs]"
  shows "cached k l (route k e l w) = stored_rows (serial (db w) (tableName k)) (loc_id l) recs"
    and "\<forall>r\<in>set recs. Object_keys r = fields k \<and> js_get r ''created_at'' = Num (now e)"
proof -
  let ?w0 = "console_log (Msg (fetching k)) w"
  note rr = route_returns_records [OF ok miss got]
  note fr = fetch_records [OF rr(1) ins]
  show keys: "\<forall>r\<in>set recs. Object_keys r = fields k \<and> js_get r ''created_at'' = Num (now e)"
    by (rule fr(2))
  have "\<forall>r\<in>set recs. ''location_id'' \<notin> set (Object_keys r)"
    using keys fields_fresh(2) [of k] by simp
  then show "cached k l (route k e l w) =
      stored_rows (serial (db w) (tableName k)) (loc_id l) recs"
    using miss fr(1) [of "tableName k"] rr(2)
    by (simp add: cached_def console_log_def stored_rows_cached)
qed

lemma first_row_age:
  assumes "batch_age e (r # rs) = Some age"
  shows "\<exists>a. js_minus e (now e) (js_get r ''created_at'') = Some a \<and> a \<le> age"
proof -
  from assms obtain ys where ys: "those (map (\<lambda>r. ToNumber e (js_get r ''created_at'')) (r # rs)) = Some ys"
    by (auto simp: batch_age_def split: option.splits)
  then obtain c cs where c: "ToNumber e (js_get r ''created_at'') = Some c" and "ys = c # cs"
    by (auto split: option.splits)
  with assms ys have age: "age = now e - Min (set (c # cs))"
    by (simp add: batch_age_def)
  have "Min (set (c # cs)) \<le> c"
    by (rule Min_le) simp_all
  with age c show ?thesis
    by (simp add: js_minus_def)
qed

section \<open>Texts joined by a separator\<close>

lemma split_at_first:
  assumes "c \<notin> set a" and "c \<notin> set a'" and "a @ c # b = a' @ c # b'"
  shows "a = a' \<and> b = b'"
  using assms
proof (induction a arbitrary: a')
  case Nil
  then show ?case by (cases a') auto
next
  case (Cons x a)
  then show ?case by (cases a') auto
qed

section \<open>The claims\<close>

subsection \<open>C1: the stale path\<close>

text \<open>
  Claim C1. For every resource kind with freshness window \<open>T\<close> and every location whose
  persisted batch is older than \<open>T\<close>, the lookup deletes all persisted records of the
  kind for that location and then takes the miss path: it calls the provider, persists
  the returned records and returns them to the caller.

  The code deletes the batch and stops: \<^verbatim>\<open>this.cacheMiss;\<close> reads the property and
  does not call it. With one weather row of age 20000 ms (the window is 15000 ms) for
  the location, \<open>getWeather\<close> leaves no row for it, issues no provider request and sends
  no response, although the provider would have answered with a forecast.
\<close>

theorem stale_path_stops_after_delete:
  "(let e = env_at 20000 (Inr (DarkSkyBody [rain_day])) False;
        w = world_with ''weathers'' [clear_row];
        w' = getWeather e seattle w
    in cached Weather seattle w = [clear_row] \<and>
       js_minus e (now e) (js_get clear_row ''created_at'') = Some 20000 \<and>
       cached Weather seattle w' = [] \<and> requests w' = [] \<and> sent w' = [])"
  by (simp add: getWeather_def lookup_def select_query delete_query deleteByLocationId_def
      Let_def env_at_def world_with_def clear_row_def seattle_def cached_def js_get_def
      js_minus_def ToNumber_def js_gt_def console_log_def)

subsection \<open>C2: the hit path\<close>

text \<open>
  Claim C2. For every resource kind with freshness window \<open>T\<close> and every location whose
  persisted batch has age at most \<open>T\<close>, the lookup returns the persisted batch unchanged,
  makes no provider call and does not change the store.

  The age is \<open>batch_age\<close>, counted from the oldest row of the batch. The code compares
  the age of the first row the \<^verbatim>\<open>SELECT\<close> returns, which is never more than that.
\<close>

theorem hit_path_returns_batch:
  assumes "\<not> query_fails e (lookup_statement k l)"
    and "batch_age e (cached k l w) = Some age"
    and "age \<le> timeouts k"
  shows "sent (route k e l w) = sent w @ [Records (cached k l w)] \<and>
         requests (route k e l w) = requests w \<and>
         db (route k e l w) = db w"
proof -
  from assms(2) obtain r rs where batch: "cached k l w = r # rs"
    by (cases "cached k l w") (simp_all add: batch_age_def)
  from first_row_age [of e r rs age] assms(2)
  obtain a where "js_minus e (now e) (js_get r ''created_at'') = Some a" and "a \<le> age"
    by (auto simp: batch)
  with assms(3) have "\<not> js_gt (js_minus e (now e) (js_get r ''created_at'')) (timeouts k)"
    by (simp add: js_gt_def)
  from route_hit [OF assms(1) batch this] show ?thesis
    by (simp add: batch)
qed

theorem hit_path_returns_batch_witness:
  "sent (route Weather (env_at 5000 (Inr (DarkSkyBody [rain_day])) False) seattle
          (world_with ''weathers'' [cloudy_row, clear_row])) =
     [Records [cloudy_row, clear_row]] \<and>
   requests (route Weather (env_at 5000 (Inr (DarkSkyBody [rain_day])) False) seattle
          (world_with ''weathers'' [cloudy_row, clear_row])) = [] \<and>
   db (route Weather (env_at 5000 (Inr (DarkSkyBody [rain_day])) False) seattle
          (world_with ''weathers'' [cloudy_row, clear_row])) =
     db (world_with ''weathers'' [cloudy_row, clear_row])"
proof -
  let ?e = "env_at 5000 (Inr (DarkSkyBody [rain_day])) False"
  let ?w = "world_with ''weathers'' [cloudy_row, clear_row]"
  have 1: "\<not> query_fails ?e (lookup_statement Weather seattle)"
    by (simp add: env_at_def)
  have c: "cached Weather seattle ?w = [cloudy_row, clear_row]"
    by (simp add: cached_def world_with_def seattle_def cloudy_row_def clear_row_def js_get_def)
  have 2: "batch_age ?e (cached Weather seattle ?w) = Some 5000"
    unfolding c
    by (simp add: batch_age_def ToNumber_def js_get_def cloudy_row_def clear_row_def
        env_at_def)
  have 3: "(5000::int) \<le> timeouts Weather"
    by simp
  have s: "sent ?w = []" "requests ?w = []"
    by (simp_all add: world_with_def)
  from hit_path_returns_batch [OF 1 2 3] show ?thesis
    unfolding c s by simp
qed

subsection \<open>C3: a failing provider\<close>

text \<open>
  Claim C3. For every resource kind, when the provider call fails on the miss or stale
  path, the failure reaches the caller as an error, nothing is persisted beyond an
  eviction already made, and no empty or partial success is returned in its place.

  \<^verbatim>\<open>Movies.fetch\<close> and \<^verbatim>\<open>Yelp.fetch\<close> catch the failure, print it and resolve with
  \<^verbatim>\<open>undefined\<close>, which the route callback then sends: an empty success.
  \<^verbatim>\<open>Weather.fetch\<close> and \<^verbatim>\<open>Events.fetch\<close> have no such \<^verbatim>\<open>.catch\<close>: there the
  rejection reaches the callback, which sends nothing. The inputs: an empty cache and a
  provider whose request fails.
\<close>

theorem gateway_failure_sent_as_empty_success:
  "(let e = env_at 0 (Inl HttpError) False;
        w = world_with ''movies'' []
    in sent (getMovies e seattle w) = [Nothing] \<and>
       console (getMovies e seattle w) =
         [Msg ''Fetching Movies'', Msg ''here in movie fetch'', Err HttpError] \<and>
       sent (getYelp e seattle w) = [Nothing] \<and>
       sent (getWeather e seattle w) = [] \<and>
       console (getWeather e seattle w) = [Msg ''Fetching Weather'', Err HttpError])"
  by (simp add: getMovies_def getYelp_def getWeather_def lookup_def select_query Let_def
      env_at_def world_with_def seattle_def Movies_fetch_def Yelp_fetch_def Weather_fetch_def
      superagent_get_def console_log_def response_send_def)

subsection \<open>C4: who persists\<close>




subsection \<open>C5: returned and persisted records agree\<close>

text \<open>
  Claim C5. For every successful miss-path fetch of a kind at a location, the records
  returned to the caller are consistent with the records persisted for that kind and
  location by the fetch: every returned record is persisted and every persisted record
  is returned, with the same field values.

  Each \<^verbatim>\<open>fetch\<close> calls \<^verbatim>\<open>summary.save(location.id)\<close> and drops the promise, so an
  insert the database rejects goes unnoticed. With an empty cache, a forecast of one day
  and a database that rejects the insert, \<open>getWeather\<close> sends the record to the caller
  as a success and prints no error, and no row is persisted for the location.
  \<^verbatim>\<open>Location.fetchLocation\<close> does wait for its save: with the same database it rejects
  with the database's error.
\<close>

theorem rejected_insert_goes_unnoticed:
  "(let e = env_rejecting_inserts (Inr (DarkSkyBody [rain_day]));
        w = world_with ''weathers'' [];
        w' = getWeather e seattle w
    in sent w' = [Records [rain_record 0]] \<and>
       cached Weather seattle w' = [] \<and>
       console w' = [Msg ''Fetching Weather'']) \<and>
   fst (fetchLocation (env_rejecting_inserts (Inr (GeoBody [seattle_geo]))) ''seattle''
          (world_with ''locations'' [])) = Inl DbError"
  by (simp add: getWeather_def lookup_def select_query Let_def
      Weather_fetch_def superagent_get_def env_rejecting_inserts_def env_at_def new_Weather_def
      rain_day_def rain_record_def Weather_save_def client_query_def store_query_def
      world_with_def seattle_def cached_def console_log_def response_send_def
      fetchLocation_def Location_save_def)

text \<open>
  When the database accepts the inserts, the agreement holds for every kind: after a
  lookup that found nothing and a route that sent the records \<open>recs\<close>, the rows
  persisted for the location are, one for one and in order, the records sent; each row
  carries the properties of its record with the same values, between its \<open>id\<close> and
  its \<open>location_id\<close>.
\<close>

lemma accepted_inserts_agree:
  assumes "\<not> query_fails e (lookup_statement k l)" and "cached k l w = []"
    and "\<forall>c v. \<not> query_fails e (Insert (tableName k) c v)"
    and "sent (route k e l w) = sent w @ [Records recs]"
  shows "list_all2 row_of (cached k l (route k e l w)) recs"
proof -
  note m = miss_path_cached [OF assms]
  have "\<forall>r\<in>set recs. ''id'' \<notin> set (Object_keys r)"
    using m(2) fields_fresh(1) [of k] by simp
  then show ?thesis
    using m(1) by (simp add: stored_rows_agree)
qed

lemma accepted_inserts_agree_example:
  "list_all2 row_of
     (cached Weather seattle
        (route Weather (env_at 0 (Inr (DarkSkyBody [rain_day])) False) seattle
           (world_with ''weathers'' [])))
     [rain_record 0]"
proof -
  let ?e = "env_at 0 (Inr (DarkSkyBody [rain_day])) False"
  let ?w = "world_with ''weathers'' []"
  have 1: "\<not> query_fails ?e (lookup_statement Weather seattle)"
    by (simp add: env_at_def)
  have 2: "cached Weather seattle ?w = []"
    by (simp add: cached_def world_with_def)
  have 3: "\<forall>c v. \<not> query_fails ?e (Insert (tableName Weather) c v)"
    by (simp add: env_at_def)
  have 4: "sent (route Weather ?e seattle ?w) = sent ?w @ [Records [rain_record 0]]"
    using route_miss [OF 1 2]
    by (simp add: Weather_fetch_def superagent_get_def env_at_def new_Weather_def rain_day_def
        rain_record_def case_prod_beta Let_def response_send_def world_with_def
        Weather_save_def client_query_frame console_log_def)
  from accepted_inserts_agree [OF 1 2 3 4] show ?thesis .
qed

subsection \<open>C6: the shape of what is returned\<close>




subsection \<open>C7: the query sent to the provider\<close>

text \<open>
  Claim C7, as amended. The claim says that, for every kind, the query issued depends on
  the location. For three kinds it does. Every fetch issues exactly one request, to the
  URL of its kind. Two locations get the same weather URL exactly when the text
  \<^verbatim>\<open>latitude,longitude\<close> spliced into it is the same; when neither latitude holds a
  comma, as no numeral does, that is exactly when they have the same latitude and the
  same longitude. Two locations get the same events URL exactly when they have the same
  formatted address, and the same Yelp URL exactly when they have the same search text.
  The movies URL is the same for every location: it asks for the films now playing,
  whatever the place.
\<close>

theorem provider_query_of_location:
  "requests (snd (fetch k e l w)) = requests w @ [(url_of k e l, auth_of k e)] \<and>
   (url_of Weather e l = url_of Weather e l' \<longleftrightarrow>
      latitude l @ '','' @ longitude l = latitude l' @ '','' @ longitude l') \<and>
   (CHR '','' \<notin> set (latitude l) \<and> CHR '','' \<notin> set (latitude l') \<longrightarrow>
      (url_of Weather e l = url_of Weather e l' \<longleftrightarrow>
         latitude l = latitude l' \<and> longitude l = longitude l')) \<and>
   (url_of Events e l = url_of Events e l' \<longleftrightarrow> formatted_query l = formatted_query l') \<and>
   (url_of Yelp e l = url_of Yelp e l' \<longleftrightarrow> search_query l = search_query l') \<and>
   url_of Movies e l = url_of Movies e l'"
proof -
  have "latitude l = latitude l' \<and> longitude l = longitude l'"
    if "CHR '','' \<notin> set (latitude l)" and "CHR '','' \<notin> set (latitude l')"
      and "latitude l @ '','' @ longitude l = latitude l' @ '','' @ longitude l'"
    using split_at_first [of "CHR '',''" "latitude l" "latitude l'" "longitude l" "longitude l'"] that
    by simp
  then show ?thesis
    by (auto simp: fetch_requests Weather_url_def Events_url_def Yelp_url_def Movies_url_def)
qed

theorem provider_query_of_location_witness:
  "requests (snd (fetch Weather (env_at 0 (Inr (DarkSkyBody [])) False) seattle
      (world_with ''weathers'' []))) =
     [(''https://api.darksky.net/forecast/W/47.6062,-122.3321'', None)] \<and>
   url_of Weather (env_at 0 (Inr (DarkSkyBody [])) False) seattle \<noteq>
     url_of Weather (env_at 0 (Inr (DarkSkyBody [])) False) paris"
  using provider_query_of_location
    [of Weather "env_at 0 (Inr (DarkSkyBody [])) False" seattle "world_with ''weathers'' []" paris]
  by (simp add: seattle_def paris_def world_with_def Weather_url_def env_at_def)

text \<open>
  Without the condition on commas the coordinates alone do not decide the weather URL:
  latitude \<^verbatim>\<open>1,2\<close> with longitude \<^verbatim>\<open>3\<close> and latitude \<^verbatim>\<open>1\<close> with longitude
  \<^verbatim>\<open>2,3\<close> give the same URL.
\<close>

lemma weather_url_needs_comma_free:
  "latitude \<lparr>loc_id = 1, search_query = ''a'', formatted_query = ''a'',
      latitude = ''1,2'', longitude = ''3''\<rparr> \<noteq>
   latitude \<lparr>loc_id = 1, search_query = ''a'', formatted_query = ''a'',
      latitude = ''1'', longitude = ''2,3''\<rparr> \<and>
   Weather_url e \<lparr>loc_id = 1, search_query = ''a'', formatted_query = ''a'',
      latitude = ''1,2'', longitude = ''3''\<rparr> =
   Weather_url e \<lparr>loc_id = 1, search_query = ''a'', formatted_query = ''a'',
      latitude = ''1'', longitude = ''2,3''\<rparr>"
  by (simp add: Weather_url_def)

text \<open>
  The claim as stated fails for movies: Seattle and Paris share no field, and the
  requests \<^verbatim>\<open>Movies.fetch\<close> issues for them are the same.
\<close>

theorem movies_query_ignores_location:
  "loc_id seattle \<noteq> loc_id paris \<and>
   search_query seattle \<noteq> search_query paris \<and>
   formatted_query seattle \<noteq> formatted_query paris \<and>
   latitude seattle \<noteq> latitude paris \<and>
   longitude seattle \<noteq> longitude paris \<and>
   requests (snd (Movies_fetch (env_at 0 (Inr (TmdbBody [])) False) seattle
      (world_with ''movies'' []))) =
   requests (snd (Movies_fetch (env_at 0 (Inr (TmdbBody [])) False) paris
      (world_with ''movies'' [])))"
  by (simp add: Movies_fetch_frame Movies_url_def seattle_def paris_def)

subsection \<open>C8: a search text the geocoder does not know\<close>

text \<open>
  Claim C8. For every search text for which the geocoding provider returns zero results,
  resolving the text fails with the not-found error and no location row is persisted.

  \<^verbatim>\<open>Location.fetchLocation\<close> rejects with \<^verbatim>\<open>'No data'\<close> before it saves anything, and
  the route \<open>searchCoords\<close> leaves the store as it was; when its lookup ran and found no
  row for the text, it sends nothing and prints the error.
\<close>

theorem no_geocoding_result:
  assumes "http e (Location_url e query) None = Inr (GeoBody [])"
  shows "fst (fetchLocation e query w) = Inl NoData \<and>
         db (snd (fetchLocation e query w)) = db w \<and>
         db (searchCoords e query w) = db w \<and>
         (\<not> query_fails e (Select ''locations'' ''search_query'' (Str query)) \<and>
          filter (\<lambda>r. js_get r ''search_query'' = Str query) (tables (db w) ''locations'') = []
          \<longrightarrow> sent (searchCoords e query w) = sent w \<and>
              console (searchCoords e query w) =
                console w @ [Msg ''Fetching Locations'', Err NoData])"
  using assms
  by (simp add: fetchLocation_def superagent_get_def searchCoords_def Location_lookup_def
      client_query_def store_query_def Let_def console_log_def response_send_def)

theorem no_geocoding_result_witness:
  "fst (fetchLocation (env_at 0 (Inr (GeoBody [])) False) ''@@invalid@@''
          (world_with ''locations'' [])) = Inl NoData \<and>
   db (searchCoords (env_at 0 (Inr (GeoBody [])) False) ''@@invalid@@''
          (world_with ''locations'' [])) = db (world_with ''locations'' []) \<and>
   sent (searchCoords (env_at 0 (Inr (GeoBody [])) False) ''@@invalid@@''
          (world_with ''locations'' [])) = [] \<and>
   console (searchCoords (env_at 0 (Inr (GeoBody [])) False) ''@@invalid@@''
          (world_with ''locations'' [])) = [Msg ''Fetching Locations'', Err NoData]"
proof -
  let ?e = "env_at 0 (Inr (GeoBody [])) False"
  have "http ?e (Location_url ?e ''@@invalid@@'') None = Inr (GeoBody [])"
    by (simp add: env_at_def)
  from no_geocoding_result [OF this, of "world_with ''locations'' []"] show ?thesis
    by (simp add: env_at_def world_with_def)
qed

subsection \<open>C9: a failing store\<close>

text \<open>
  Claim C9. For every failure of a store operation during a lookup, the engine surfaces
  a store error to its caller rather than swallowing it, and does not go on serving as
  if the operation had succeeded.

  \<^verbatim>\<open>lookup\<close> builds the error object with status 500 in \<^verbatim>\<open>errorMessage\<close>, prints
  it, and resolves its promise with it; the route callbacks drop that promise, so
  nothing is sent to the caller. \<^verbatim>\<open>Location.lookup\<close> only prints the error. The inputs:
  a database that rejects every statement.
\<close>

theorem lookup_failure_is_swallowed:
  "(let e = env_at 0 (Inr (DarkSkyBody [rain_day])) True;
        w = world_with ''weathers'' [clear_row]
    in sent (getWeather e seattle w) = [] \<and>
       requests (getWeather e seattle w) = [] \<and>
       console (getWeather e seattle w) = [ErrorObj 500 ''Sorry something went wrong''] \<and>
       sent (searchCoords e ''seattle'' w) = [] \<and>
       console (searchCoords e ''seattle'' w) = [Err DbError])"
  by (simp add: getWeather_def lookup_def client_query_def store_query_def Let_def
      env_at_def world_with_def seattle_def errorMessage_def console_log_def
      searchCoords_def Location_lookup_def)

subsection \<open>C10: what the eviction touches\<close>



end
